theory Spec2Isabelle
  imports Complex_Main "HOL-Library.Sublist"
begin

section \<open>The persistent terminal session server (p1_terminal_mcp_server.py)\<close>

text \<open>
  The module keeps one shell process in the global \<open>_session\<close>, writes a command followed by
  a trailer that prints two marker lines, and reads the merged output line by line until the
  done marker. The embedding below follows the module function by function. What the module
  gets from outside (the processes, the clock, the lines of the pipe, \<open>uuid4\<close>) is an explicit
  argument; what it changes (the global, the processes) is an explicit state that every
  function returns, also when it raises.

  Python strings are lists of characters. A character of the model is a code point below
  256, so \<open>len\<close> is \<open>length\<close>; text beyond Latin-1 is outside the model.
\<close>

subsection \<open>The string methods the module calls\<close>

definition py_isspace :: "char \<Rightarrow> bool" where
  \<comment> \<open>\<open>str.isspace\<close> on one code point below 256: TAB..CR, FS..US, space, NEL, NBSP\<close>
  "py_isspace c =
     (let n = (of_char c :: nat)
      in (9 \<le> n \<and> n \<le> 13) \<or> (28 \<le> n \<and> n \<le> 32) \<or> n = 133 \<or> n = 160)"

definition py_strip :: "string \<Rightarrow> string" where
  \<comment> \<open>\<open>s.strip()\<close>\<close>
  "py_strip s = rev (dropWhile py_isspace (rev (dropWhile py_isspace s)))"

definition rstrip_newlines :: "string \<Rightarrow> string" where
  \<comment> \<open>\<open>s.rstrip("\n")\<close>\<close>
  "rstrip_newlines s = rev (dropWhile (\<lambda>c. c = CHR 0x0A) (rev s))"

definition startswith :: "string \<Rightarrow> string \<Rightarrow> bool" where
  \<comment> \<open>\<open>s.startswith(p)\<close>\<close>
  "startswith s p = (take (length p) s = p)"

definition split_colon_1 :: "string \<Rightarrow> string option" where
  \<comment> \<open>\<open>s.split(":", 1)[1]\<close>: the text after the first colon; without a colon the list has
      one element and the index raises IndexError, here \<open>None\<close>\<close>
  "split_colon_1 s =
     (case dropWhile (\<lambda>c. c \<noteq> CHR '':'') s of [] \<Rightarrow> None | _ # rest \<Rightarrow> Some rest)"

definition is_digit :: "char \<Rightarrow> bool" where
  "is_digit c = (let n = (of_char c :: nat) in 48 \<le> n \<and> n \<le> 57)"

definition digit_val :: "char \<Rightarrow> int" where
  "digit_val c = int (of_char c) - 48"

fun digit_groups :: "string \<Rightarrow> string option" where
  \<comment> \<open>digits with single underscores between them; the result has the underscores removed\<close>
  "digit_groups [] = None"
| "digit_groups [c] = (if is_digit c then Some [c] else None)"
| "digit_groups (c # u # cs) =
     (if is_digit c
      then (if u = CHR ''_'' then map_option ((#) c) (digit_groups cs)
            else map_option ((#) c) (digit_groups (u # cs)))
      else None)"

definition INT_MAX_STR_DIGITS :: nat where
  \<comment> \<open>the interpreter's default limit on the digits of a decimal literal given as text\<close>
  "INT_MAX_STR_DIGITS = 4300"

definition py_int :: "string \<Rightarrow> int option" where
  \<comment> \<open>\<open>int(s)\<close> for a string, base 10: surrounding whitespace, one optional sign, digit
      groups; \<open>None\<close> is ValueError\<close>
  "py_int s =
     (let t = py_strip s;
          neg = (t \<noteq> [] \<and> hd t = CHR ''-'');
          body = (if t \<noteq> [] \<and> (hd t = CHR ''-'' \<or> hd t = CHR ''+'') then tl t else t)
      in case digit_groups body of
           None \<Rightarrow> None
         | Some ds \<Rightarrow>
             if INT_MAX_STR_DIGITS < length ds then None
             else (let v = foldl (\<lambda>a c. 10 * a + digit_val c) 0 ds
                   in Some (if neg then - v else v)))"

fun dec :: "nat \<Rightarrow> string" where
  \<comment> \<open>\<open>str(n)\<close> for a natural number\<close>
  "dec n = (if n < 10 then [''0123456789'' ! n]
            else dec (n div 10) @ [''0123456789'' ! (n mod 10)])"

definition round_half_even :: "real \<Rightarrow> int" where
  "round_half_even x =
     (let f = \<lfloor>x\<rfloor>; d = x - of_int f
      in if d < 1 / 2 then f else if 1 / 2 < d then f + 1 else if even f then f else f + 1)"

datatype pyfloat =
    Finite real     \<comment> \<open>a finite float other than \<open>-0.0\<close>, as the real number it is\<close>
  | Neg_Zero        \<comment> \<open>\<open>-0.0\<close>\<close>
  | Pos_Inf
  | Neg_Inf
  | Not_A_Number

definition elapsed_gt :: "real \<Rightarrow> pyfloat \<Rightarrow> bool" where
  \<comment> \<open>\<open>t > x\<close> for a finite \<open>t\<close>; every comparison with nan is false\<close>
  "elapsed_gt t x =
     (case x of
        Finite r \<Rightarrow> r < t
      | Neg_Zero \<Rightarrow> 0 < t
      | Pos_Inf \<Rightarrow> False
      | Neg_Inf \<Rightarrow> True
      | Not_A_Number \<Rightarrow> False)"

definition fmt_1f :: "pyfloat \<Rightarrow> string" where
  \<comment> \<open>\<open>f"{x:.1f}"\<close>\<close>
  "fmt_1f x =
     (case x of
        Finite r \<Rightarrow>
          (let n = nat (round_half_even (\<bar>r\<bar> * 10))
           in (if r < 0 then ''-'' else '''') @ dec (n div 10) @ ''.'' @ dec (n mod 10))
      | Neg_Zero \<Rightarrow> ''-0.0''
      | Pos_Inf \<Rightarrow> ''inf''
      | Neg_Inf \<Rightarrow> ''-inf''
      | Not_A_Number \<Rightarrow> ''nan'')"

definition int_of_float :: "real \<Rightarrow> int" where
  \<comment> \<open>\<open>int(x)\<close> for a finite float, \<open>-0.0\<close> giving 0 as 0.0 does: truncation toward zero\<close>
  "int_of_float x = (if 0 \<le> x then \<lfloor>x\<rfloor> else \<lceil>x\<rceil>)"

subsection \<open>Values, dictionaries, exceptions\<close>

datatype pyval = PNone | PBool bool | PInt int | PStr string

type_synonym pydict = "string \<rightharpoonup> pyval"

definition dget :: "pydict \<Rightarrow> string \<Rightarrow> pyval" where
  \<comment> \<open>\<open>d.get(k)\<close>\<close>
  "dget d k = (case d k of None \<Rightarrow> PNone | Some v \<Rightarrow> v)"

fun truthy :: "pyval \<Rightarrow> bool" where
  "truthy PNone = False"
| "truthy (PBool b) = b"
| "truthy (PInt i) = (i \<noteq> 0)"
| "truthy (PStr s) = (s \<noteq> [])"

fun eq_zero :: "pyval \<Rightarrow> bool" where
  \<comment> \<open>\<open>v == 0\<close>\<close>
  "eq_zero (PInt i) = (i = 0)"
| "eq_zero (PBool b) = (\<not> b)"
| "eq_zero _ = False"

fun or_empty :: "pyval \<Rightarrow> string" where
  \<comment> \<open>\<open>(v or "")\<close> where \<open>v\<close> is a string or None, as every \<open>stdout\<close> entry is\<close>
  "or_empty (PStr s) = s"
| "or_empty _ = []"

fun opt_int :: "int option \<Rightarrow> pyval" where
  "opt_int None = PNone"
| "opt_int (Some i) = PInt i"

fun opt_str :: "string option \<Rightarrow> pyval" where
  "opt_str None = PNone"
| "opt_str (Some s) = PStr s"

datatype exn =
    RuntimeError string
  | FileNotFoundError
  | OSError
  | BrokenPipeError
  | TimeoutExpired
  | IndexError
  | AssertionError

subsection \<open>Configuration\<close>

record config =
  MAX_OUTPUT_CHARS :: int   \<comment> \<open>\<open>int(os.getenv("P1_MAX_OUTPUT_CHARS", "20000"))\<close>\<close>
  MAX_OUTPUT_LINES :: int   \<comment> \<open>\<open>int(os.getenv("P1_MAX_OUTPUT_LINES", "800"))\<close>\<close>

definition default_config :: config where
  "default_config = \<lparr>MAX_OUTPUT_CHARS = 20000, MAX_OUTPUT_LINES = 800\<rparr>"

subsection \<open>The read loop\<close>

text \<open>
  One pass of \<open>while True\<close> looks at the clock, asks \<open>select\<close> whether the pipe is readable
  and, if so, reads one line. An event is what one pass sees: the value of
  \<open>time.time() - start\<close>, a finite float, and the answer of the pipe. \<open>Ready []\<close> is
  \<open>readline\<close> returning the empty string, the end of the stream. \<open>Blocks\<close> is a pipe that
  \<open>select\<close> reports readable while it holds the start of a line whose end never comes:
  \<open>readline\<close> waits for the newline and does not return, so no later pass takes place.
\<close>

datatype poll = Not_Ready | Ready string | Blocks

type_synonym event = "real \<times> poll"

record loop_vars =
  lines :: "string list"
  exit_code :: "int option"
  cwd_after :: "string option"
  stored_chars :: int
  stored_lines :: int
  truncated :: bool

definition init_vars :: loop_vars where
  "init_vars = \<lparr>lines = [], exit_code = None, cwd_after = None,
                 stored_chars = 0, stored_lines = 0, truncated = False\<rparr>"

definition timeout_result :: "pyfloat \<Rightarrow> loop_vars \<Rightarrow> pydict" where
  "timeout_result timeout_sec v =
     [''ok'' \<mapsto> PBool False,
      ''error'' \<mapsto> PStr (''timeout after '' @ fmt_1f timeout_sec @ ''s''),
      ''stdout'' \<mapsto> PStr (concat (lines v)),
      ''exit_code'' \<mapsto> opt_int (exit_code v),
      ''cwd_after'' \<mapsto> opt_str (cwd_after v),
      ''truncated'' \<mapsto> PBool (truncated v)]"

definition ended_result :: "loop_vars \<Rightarrow> pydict" where
  "ended_result v =
     [''ok'' \<mapsto> PBool False,
      ''error'' \<mapsto> PStr ''shell session ended unexpectedly'',
      ''stdout'' \<mapsto> PStr (concat (lines v)),
      ''exit_code'' \<mapsto> opt_int (exit_code v),
      ''cwd_after'' \<mapsto> opt_str (cwd_after v),
      ''truncated'' \<mapsto> PBool (truncated v)]"

definition done_result :: "loop_vars \<Rightarrow> pydict" where
  "done_result v =
     [''ok'' \<mapsto> PBool True,
      ''stdout'' \<mapsto> PStr (concat (lines v)),
      ''exit_code'' \<mapsto> opt_int (exit_code v),
      ''cwd_after'' \<mapsto> opt_str (cwd_after v),
      ''truncated'' \<mapsto> PBool (truncated v)]"

datatype iter = Continue loop_vars | Return "exn + pydict" | Never

definition loop_body ::
  "config \<Rightarrow> string \<Rightarrow> string \<Rightarrow> pyfloat \<Rightarrow> loop_vars \<Rightarrow> event \<Rightarrow> iter" where
  "loop_body cfg cwd_marker done_marker timeout_sec v e =
     (if elapsed_gt (fst e) timeout_sec then Return (Inr (timeout_result timeout_sec v))
      else case snd e of
        Not_Ready \<Rightarrow> Continue v
      | Blocks \<Rightarrow> Never
      | Ready line \<Rightarrow>
          if line = [] then Return (Inr (ended_result v))
          else if startswith line cwd_marker then
            (case split_colon_1 line of
               None \<Rightarrow> Return (Inl IndexError)
             | Some rest \<Rightarrow> Continue (v\<lparr>cwd_after := Some (py_strip rest)\<rparr>))
          else if startswith line done_marker then
            Return (Inr (done_result
              (v\<lparr>exit_code := (case split_colon_1 line of
                                  None \<Rightarrow> None
                                | Some rest \<Rightarrow> py_int (py_strip rest))\<rparr>)))
          else if \<not> truncated v \<and> stored_lines v < MAX_OUTPUT_LINES cfg
                  \<and> stored_chars v + int (length line) \<le> MAX_OUTPUT_CHARS cfg
          then Continue (v\<lparr>lines := lines v @ [line],
                           stored_lines := stored_lines v + 1,
                           stored_chars := stored_chars v + int (length line)\<rparr>)
          else Continue (v\<lparr>truncated := True\<rparr>))"

fun read_loop ::
  "config \<Rightarrow> string \<Rightarrow> string \<Rightarrow> pyfloat \<Rightarrow> loop_vars \<Rightarrow> event list
     \<Rightarrow> (exn + pydict) option" where
  \<comment> \<open>\<open>None\<close>: no result; a read never returns, or the loop is still running when the
      listed events are used up\<close>
  "read_loop cfg cwd_marker done_marker timeout_sec v [] = None"
| "read_loop cfg cwd_marker done_marker timeout_sec v (e # es) =
     (case loop_body cfg cwd_marker done_marker timeout_sec v e of
        Continue v' \<Rightarrow> read_loop cfg cwd_marker done_marker timeout_sec v' es
      | Return r \<Rightarrow> Some r
      | Never \<Rightarrow> None)"

definition line_count :: "string \<Rightarrow> nat" where
  \<comment> \<open>the number of lines of a text: its newlines, and one more for an unfinished last line\<close>
  "line_count s =
     length (filter (\<lambda>c. c = CHR 0x0A) s) + (if s = [] \<or> last s = CHR 0x0A then 0 else 1)"

definition readline_shaped :: "string \<Rightarrow> bool" where
  \<comment> \<open>what \<open>readline\<close> can return: no newline except as the last character\<close>
  "readline_shaped l = (CHR 0x0A \<notin> set (butlast l))"

fun ordinary_lines :: "string \<Rightarrow> string \<Rightarrow> pyfloat \<Rightarrow> event list \<Rightarrow> string list" where
  \<comment> \<open>the ordinary output the loop reads before it returns: the lines that are read within
      the timeout and begin with neither marker\<close>
  "ordinary_lines cwd_marker done_marker timeout_sec [] = []"
| "ordinary_lines cwd_marker done_marker timeout_sec ((t, Not_Ready) # es) =
     (if elapsed_gt t timeout_sec then []
      else ordinary_lines cwd_marker done_marker timeout_sec es)"
| "ordinary_lines cwd_marker done_marker timeout_sec ((t, Blocks) # es) = []"
| "ordinary_lines cwd_marker done_marker timeout_sec ((t, Ready line) # es) =
     (if elapsed_gt t timeout_sec \<or> line = [] then []
      else if startswith line cwd_marker then
        (if split_colon_1 line = None then []
         else ordinary_lines cwd_marker done_marker timeout_sec es)
      else if startswith line done_marker then []
      else line # ordinary_lines cwd_marker done_marker timeout_sec es)"

fun vars_after ::
  "config \<Rightarrow> string \<Rightarrow> string \<Rightarrow> pyfloat \<Rightarrow> loop_vars \<Rightarrow> event list
     \<Rightarrow> loop_vars option" where
  \<comment> \<open>the loop's variables after the listed events, when none of them made the loop return\<close>
  "vars_after cfg cwd_marker done_marker timeout_sec v [] = Some v"
| "vars_after cfg cwd_marker done_marker timeout_sec v (e # es) =
     (case loop_body cfg cwd_marker done_marker timeout_sec v e of
        Continue v' \<Rightarrow> vars_after cfg cwd_marker done_marker timeout_sec v' es
      | Return r \<Rightarrow> None
      | Never \<Rightarrow> None)"

subsection \<open>Processes and the session\<close>

text \<open>
  A process is known by a number. \<open>returncode\<close> is what \<open>poll()\<close> reports for it (\<open>None\<close>
  while it runs), \<open>spawned\<close> counts the processes created so far, and \<open>trace\<close> lists the
  calls made on processes with how each ended, oldest first. The asyncio lock lets one tool
  call run at a time; the model runs them one after the other.
\<close>

record popen =
  pid :: nat
  stdin :: bool    \<comment> \<open>\<open>proc.stdin is not None\<close>\<close>
  stdout :: bool   \<comment> \<open>\<open>proc.stdout is not None\<close>\<close>

record ShellSession =
  proc :: popen

datatype call =
    Spawn nat
  | Write nat string
  | Terminate nat "exn option"
  | Wait nat "exn + int"
  | Kill nat "exn option"

record state =
  session :: "ShellSession option"
  returncode :: "nat \<Rightarrow> int option"
  spawned :: nat
  trace :: "call list"

record spawn_env =
  popen_raises :: "exn option"   \<comment> \<open>\<open>subprocess.Popen\<close> raises, e.g. no such shell\<close>
  pipe_in :: bool
  pipe_out :: bool
  rc0 :: "int option"            \<comment> \<open>what \<open>poll()\<close> reports for the new process\<close>
  ps1_raises :: "exn option"     \<comment> \<open>writing or flushing the PS1 line raises\<close>

definition start_shell :: "spawn_env \<Rightarrow> state \<Rightarrow> (exn + ShellSession) \<times> state" where
  "start_shell e st =
     (case popen_raises e of
        Some x \<Rightarrow> (Inl x, st)
      | None \<Rightarrow>
          (let p = \<lparr>pid = spawned st, stdin = pipe_in e, stdout = pipe_out e\<rparr>;
               st1 = st\<lparr>returncode := (returncode st)(pid p := rc0 e),
                        spawned := Suc (spawned st),
                        trace := trace st @ [Spawn (pid p)]\<rparr>
           in if \<not> stdin p \<or> \<not> stdout p
              then (Inl (RuntimeError ''Failed to start shell with pipes''), st1)
              else (case ps1_raises e of
                      Some x \<Rightarrow> (Inl x, st1)
                    | None \<Rightarrow>
                        (Inr \<lparr>proc = p\<rparr>,
                         st1\<lparr>trace := trace st1 @
                           [Write (pid p) (''export PS1='' @ [CHR 0x27, CHR 0x27, CHR 0x0A])]\<rparr>))))"

record stop_env =
  terminate_raises :: "exn option"
  wait_result :: "exn + int"     \<comment> \<open>\<open>wait(timeout=2)\<close>: TimeoutExpired, or the return code\<close>
  kill_raises :: "exn option"

definition stop_shell :: "stop_env \<Rightarrow> state \<Rightarrow> state" where
  "stop_shell e st =
     (case session st of
        None \<Rightarrow> st
      | Some s \<Rightarrow>
          (let p = pid (proc s);
               st1 = st\<lparr>trace := trace st @ [Terminate p (terminate_raises e)]\<rparr>;
               st2 = (case terminate_raises e of
                        Some x \<Rightarrow> st1\<lparr>trace := trace st1 @ [Kill p (kill_raises e)]\<rparr>
                      | None \<Rightarrow>
                          (case wait_result e of
                             Inr rc \<Rightarrow>
                               st1\<lparr>returncode := (returncode st1)(p := Some rc),
                                   trace := trace st1 @ [Wait p (Inr rc)]\<rparr>
                           | Inl x \<Rightarrow>
                               st1\<lparr>trace := trace st1 @
                                 [Wait p (Inl x), Kill p (kill_raises e)]\<rparr>))
           in st2\<lparr>session := None\<rparr>))"

definition respawn_if_exited ::
  "spawn_env \<Rightarrow> ShellSession \<Rightarrow> state \<Rightarrow> (exn + popen) \<times> state" where
  \<comment> \<open>the second \<open>if\<close> of \<open>_ensure_shell\<close> and its return; \<open>s\<close> is \<open>_session\<close> there\<close>
  "respawn_if_exited e s st =
     (if returncode st (pid (proc s)) \<noteq> None
      then (case start_shell e st of
              (Inl x, st1) \<Rightarrow> (Inl x, st1)
            | (Inr s1, st1) \<Rightarrow> (Inr (proc s1), st1\<lparr>session := Some s1\<rparr>))
      else (Inr (proc s), st))"

definition ensure_shell :: "spawn_env \<Rightarrow> spawn_env \<Rightarrow> state \<Rightarrow> (exn + popen) \<times> state" where
  \<comment> \<open>\<open>e1\<close> answers the first \<open>_start_shell\<close> the call makes, \<open>e2\<close> the second\<close>
  "ensure_shell e1 e2 st =
     (case session st of
        None \<Rightarrow>
          (case start_shell e1 st of
             (Inl x, st1) \<Rightarrow> (Inl x, st1)
           | (Inr s, st1) \<Rightarrow> respawn_if_exited e2 s (st1\<lparr>session := Some s\<rparr>))
      | Some s \<Rightarrow> respawn_if_exited e1 s st)"

definition read_until_done ::
  "config \<Rightarrow> popen \<Rightarrow> string \<Rightarrow> string \<Rightarrow> pyfloat \<Rightarrow> event list
     \<Rightarrow> (exn + pydict) option" where
  "read_until_done cfg p cwd_marker done_marker timeout_sec es =
     (if \<not> stdout p then Some (Inl AssertionError)
      else read_loop cfg cwd_marker done_marker timeout_sec init_vars es)"

subsection \<open>Running one command\<close>

record exec_env =
  spawn1 :: spawn_env
  spawn2 :: spawn_env
  uid :: string                   \<comment> \<open>\<open>uuid.uuid4().hex\<close>\<close>
  payload_raises :: "exn option"  \<comment> \<open>writing or flushing the payload raises\<close>
  events :: "event list"

definition mk_cwd_marker :: "string \<Rightarrow> string" where
  "mk_cwd_marker u = ''__MCP_CWD_'' @ u @ ''__''"

definition mk_done_marker :: "string \<Rightarrow> string" where
  "mk_done_marker u = ''__MCP_DONE_'' @ u @ ''__''"

definition printf_line :: "string \<Rightarrow> string \<Rightarrow> string" where
  \<comment> \<open>\<open>printf "<marker>:%s\n" "<arg>"\<close> and a newline\<close>
  "printf_line marker arg =
     ''printf '' @ [CHR 0x22] @ marker @ '':%s'' @ [CHR 0x5C] @ ''n'' @ [CHR 0x22] @ '' '' @
     [CHR 0x22] @ arg @ [CHR 0x22, CHR 0x0A]"

definition mk_payload :: "string \<Rightarrow> string \<Rightarrow> string \<Rightarrow> string" where
  "mk_payload cmd cwd_marker done_marker =
     rstrip_newlines cmd @ [CHR 0x0A] @ ''__mcp_ec=$?'' @ [CHR 0x0A] @
     printf_line cwd_marker ''$PWD'' @ printf_line done_marker ''$__mcp_ec''"

definition execute ::
  "config \<Rightarrow> exec_env \<Rightarrow> string \<Rightarrow> pyfloat \<Rightarrow> state
     \<Rightarrow> (exn + pydict) option \<times> state" where
  "execute cfg e cmd timeout_sec st =
     (case ensure_shell (spawn1 e) (spawn2 e) st of
        (Inl x, st1) \<Rightarrow> (Some (Inl x), st1)
      | (Inr p, st1) \<Rightarrow>
          if \<not> stdin p then (Some (Inl AssertionError), st1)
          else (let cwd_marker = mk_cwd_marker (uid e);
                    done_marker = mk_done_marker (uid e);
                    payload = mk_payload cmd cwd_marker done_marker
                in case payload_raises e of
                     Some x \<Rightarrow> (Some (Inl x), st1)
                   | None \<Rightarrow>
                       (read_until_done cfg p cwd_marker done_marker timeout_sec (events e),
                        st1\<lparr>trace := trace st1 @ [Write (pid p) payload]\<rparr>)))"

subsection \<open>The three tools\<close>

record init_env =
  stop :: stop_env
  ens1 :: spawn_env
  ens2 :: spawn_env
  run :: exec_env

definition initiate_terminal ::
  "config \<Rightarrow> init_env \<Rightarrow> state \<Rightarrow> (exn + pydict) option \<times> state" where
  "initiate_terminal cfg e st =
     (case ensure_shell (ens1 e) (ens2 e) (stop_shell (stop e) st) of
        (Inl x, st1) \<Rightarrow> (Some (Inl x), st1)
      | (Inr p, st1) \<Rightarrow>
          (case execute cfg (run e) ''pwd'' (Finite 8) st1 of
             (None, st2) \<Rightarrow> (None, st2)
           | (Some (Inl x), st2) \<Rightarrow> (Some (Inl x), st2)
           | (Some (Inr res), st2) \<Rightarrow>
               (Some (Inr
                  [''ok'' \<mapsto> PBool True,
                   ''message'' \<mapsto> PStr ''terminal session initiated'',
                   ''cwd'' \<mapsto>
                     (let s = py_strip (or_empty (dget res ''stdout''))
                      in if s \<noteq> [] then PStr s else dget res ''cwd_after'')]),
                st2)))"

definition terminate_terminal :: "stop_env \<Rightarrow> state \<Rightarrow> pydict \<times> state" where
  "terminate_terminal e st =
     ([''ok'' \<mapsto> PBool True, ''message'' \<mapsto> PStr ''terminal session terminated''],
      stop_shell e st)"

definition empty_command_result :: pydict where
  "empty_command_result =
     [''ok'' \<mapsto> PBool False, ''error'' \<mapsto> PStr ''empty command'', ''stdout'' \<mapsto> PStr '''',
      ''exit_code'' \<mapsto> PNone, ''cwd_after'' \<mapsto> PNone]"

definition execute_command ::
  "config \<Rightarrow> exec_env \<Rightarrow> real \<Rightarrow> string option \<Rightarrow> pyfloat \<Rightarrow> state
     \<Rightarrow> (exn + pydict) option \<times> state" where
  \<comment> \<open>\<open>ms\<close> is the float \<open>(time.time() - t0) * 1000\<close>; a \<open>cmd\<close> of \<open>None\<close> is Python's None\<close>
  "execute_command cfg e ms cmd timeout_sec st =
     (case cmd of
        None \<Rightarrow> (Some (Inr empty_command_result), st)
      | Some c \<Rightarrow>
          if py_strip c = [] then (Some (Inr empty_command_result), st)
          else (case execute cfg e c timeout_sec st of
                  (None, st1) \<Rightarrow> (None, st1)
                | (Some (Inl x), st1) \<Rightarrow> (Some (Inl x), st1)
                | (Some (Inr res), st1) \<Rightarrow>
                    (let res1 = res(''cmd'' \<mapsto> PStr c);
                         res2 = res1(''duration_ms'' \<mapsto> PInt (int_of_float ms))
                     in (Some (Inr
                           (if truthy (dget res2 ''ok'') \<and> eq_zero (dget res2 ''exit_code'')
                               \<and> py_strip (or_empty (dget res2 ''stdout'')) = []
                            then res2(''stdout'' \<mapsto> PStr (''(ok)'' @ [CHR 0x0A]))
                            else res2)),
                         st1))))"

subsection \<open>Auxiliary notions and the concrete inputs of the examples\<close>

definition small_config :: config where
  "small_config = \<lparr>MAX_OUTPUT_CHARS = 6, MAX_OUTPUT_LINES = 800\<rparr>"

definition proc0 :: popen where
  "proc0 = \<lparr>pid = 0, stdin = True, stdout = True\<rparr>"

definition capped_events :: "event list" where
  "capped_events =
     [(0, Ready (''abc'' @ [CHR 0x0A])), (1, Ready (''defg'' @ [CHR 0x0A])),
      (2, Ready (''x'' @ [CHR 0x0A])), (3, Ready (''D:0'' @ [CHR 0x0A]))]"

definition ok_spawn :: spawn_env where
  "ok_spawn = \<lparr>popen_raises = None, pipe_in = True, pipe_out = True, rc0 = None,
               ps1_raises = None\<rparr>"

definition no_session :: state where
  "no_session = \<lparr>session = None, returncode = (\<lambda>_. None), spawned = 0, trace = []\<rparr>"

definition live_session :: state where
  "live_session = \<lparr>session = Some \<lparr>proc = proc0\<rparr>, returncode = (\<lambda>_. None), spawned = 1,
                    trace = []\<rparr>"

definition exec_with :: "event list \<Rightarrow> exec_env" where
  "exec_with es = \<lparr>spawn1 = ok_spawn, spawn2 = ok_spawn, uid = ''ab'', payload_raises = None,
                    events = es\<rparr>"

definition slow_events :: "event list" where
  "slow_events = [(0, Not_Ready), (1, Ready (''step 1'' @ [CHR 0x0A])), (20.5, Not_Ready)]"

definition unfinished_line_events :: "event list" where
  \<comment> \<open>the shell has printed \<open>x\<close> and no newline; the read that follows never returns\<close>
  "unfinished_line_events = [(0, Not_Ready), (0.1, Blocks)]"

definition dying_events :: "event list" where
  "dying_events = [(0, Ready (''bye'' @ [CHR 0x0A])), (1, Ready [])]"

definition bare_marker_events :: "event list" where
  "bare_marker_events = [(0, Ready (mk_cwd_marker ''ab'' @ [CHR 0x0A]))]"

definition spawn_ok :: "spawn_env \<Rightarrow> bool" where
  \<comment> \<open>\<open>_start_shell\<close> raises nothing: the process starts with both pipes and takes the PS1 line\<close>
  "spawn_ok e = (popen_raises e = None \<and> pipe_in e \<and> pipe_out e \<and> ps1_raises e = None)"

definition failing_stop :: stop_env where
  "failing_stop = \<lparr>terminate_raises = None, wait_result = Inl TimeoutExpired,
                    kill_raises = Some OSError\<rparr>"

definition blank_command :: string where
  "blank_command = [CHR '' '', CHR 0x09, CHR 0x0A]"

definition done_events :: "event list" where
  "done_events =
     [(0, Ready (''hi'' @ [CHR 0x0A])),
      (0, Ready (mk_cwd_marker ''ab'' @ '':/home/u'' @ [CHR 0x0A])),
      (0, Ready (mk_done_marker ''ab'' @ '':0'' @ [CHR 0x0A]))]"

definition no_shell_spawn :: spawn_env where
  "no_shell_spawn = \<lparr>popen_raises = Some FileNotFoundError, pipe_in = False, pipe_out = False,
                      rc0 = None, ps1_raises = None\<rparr>"

definition exec_no_shell :: exec_env where
  "exec_no_shell = \<lparr>spawn1 = no_shell_spawn, spawn2 = ok_spawn, uid = ''ab'',
                     payload_raises = None, events = done_events\<rparr>"

definition init_no_shell :: init_env where
  "init_no_shell = \<lparr>stop = failing_stop, ens1 = no_shell_spawn, ens2 = ok_spawn,
                     run = exec_with done_events\<rparr>"

definition init_with :: "event list \<Rightarrow> init_env" where
  "init_with es = \<lparr>stop = failing_stop, ens1 = ok_spawn, ens2 = ok_spawn, run = exec_with es\<rparr>"

definition silent_timeout_events :: "event list" where
  "silent_timeout_events = [(0, Not_Ready), (8.1, Not_Ready)]"

section \<open>Properties of the read loop\<close>

subsection \<open>What the captured lines are\<close>

definition capture_inv :: "config \<Rightarrow> loop_vars \<Rightarrow> string list \<Rightarrow> bool" where
  "capture_inv cfg v seen =
     (prefix (lines v) seen \<and> (truncated v \<longleftrightarrow> lines v \<noteq> seen)
      \<and> stored_chars v = int (length (concat (lines v)))
      \<and> stored_lines v = int (length (lines v))
      \<and> stored_chars v \<le> MAX_OUTPUT_CHARS cfg
      \<and> stored_lines v \<le> MAX_OUTPUT_LINES cfg)"

lemmas string_defs = startswith_def split_colon_1_def py_strip_def py_isspace_def py_int_def
  is_digit_def digit_val_def INT_MAX_STR_DIGITS_def

lemma elapsed_gt_Finite [simp]: "elapsed_gt t (Finite r) = (r < t)"
  by (simp add: elapsed_gt_def)

lemma read_loop_append:
  "vars_after cfg c d T v pre = Some v' \<Longrightarrow>
   read_loop cfg c d T v (pre @ es) = read_loop cfg c d T v' es"
  by (induction pre arbitrary: v) (auto split: iter.splits)

lemma loop_body_exit_code:
  "loop_body cfg c d T v e = Continue v' \<Longrightarrow> exit_code v' = exit_code v"
  by (auto simp: loop_body_def split: if_splits poll.splits option.splits)

lemma vars_after_exit_code:
  "vars_after cfg c d T v pre = Some v' \<Longrightarrow> exit_code v' = exit_code v"
  by (induction pre arbitrary: v) (auto split: iter.splits dest: loop_body_exit_code)

lemma loop_body_timeout:
  "elapsed_gt t T \<Longrightarrow> loop_body cfg c d T v (t, a) = Return (Inr (timeout_result T v))"
  by (simp add: loop_body_def)

lemma loop_body_ended:
  "\<not> elapsed_gt t T \<Longrightarrow> loop_body cfg c d T v (t, Ready []) = Return (Inr (ended_result v))"
  by (simp add: loop_body_def)

lemma loop_body_Continue_inv:
  assumes "capture_inv cfg v seen" "loop_body cfg c d T v e = Continue v'"
  shows "\<exists>new. ordinary_lines c d T (e # es) = new @ ordinary_lines c d T es
           \<and> capture_inv cfg v' (seen @ new)"
proof (cases e)
  case (Pair t a)
  show ?thesis
  proof (cases a)
    case Not_Ready
    with Pair assms show ?thesis
      by (auto simp: loop_body_def split: if_splits)
  next
    case Blocks
    with Pair assms show ?thesis
      by (auto simp: loop_body_def split: if_splits)
  next
    case (Ready line)
    with Pair assms show ?thesis
      by (auto simp: loop_body_def capture_inv_def split: if_splits option.splits)
  qed
qed

lemma loop_body_Return_ordinary:
  "loop_body cfg c d T v e = Return r \<Longrightarrow> ordinary_lines c d T (e # es) = []"
  by (cases e; cases "snd e") (auto simp: loop_body_def split: if_splits option.splits)

lemma loop_body_Return_shape:
  "loop_body cfg c d T v e = Return (Inr r) \<Longrightarrow>
   r = timeout_result T v \<or> r = ended_result v \<or> (\<exists>ec. r = done_result (v\<lparr>exit_code := ec\<rparr>))"
  by (cases e; cases "snd e") (auto simp: loop_body_def split: if_splits option.splits)


lemma read_loop_capture:
  "capture_inv cfg v seen \<Longrightarrow> read_loop cfg c d T v es = Some (Inr r) \<Longrightarrow>
   \<exists>v'. capture_inv cfg v' (seen @ ordinary_lines c d T es)
        \<and> r ''stdout'' = Some (PStr (concat (lines v')))
        \<and> r ''truncated'' = Some (PBool (truncated v'))"
proof (induction es arbitrary: v seen)
  case Nil
  then show ?case by simp
next
  case (Cons e es)
  show ?case
  proof (cases "loop_body cfg c d T v e")
    case (Continue v1)
    from loop_body_Continue_inv[OF Cons.prems(1) Continue, of es]
    obtain new where new: "ordinary_lines c d T (e # es) = new @ ordinary_lines c d T es"
      and inv1: "capture_inv cfg v1 (seen @ new)" by blast
    from Cons.prems(2) Continue have "read_loop cfg c d T v1 es = Some (Inr r)" by simp
    from Cons.IH[OF inv1 this] new show ?thesis by simp
  next
    case (Return res)
    with Cons.prems(2) have res: "res = Inr r" by simp
    have ord: "ordinary_lines c d T (e # es) = []"
      using Return by (rule loop_body_Return_ordinary)
    from loop_body_Return_shape[OF Return[unfolded res]]
    have "r ''stdout'' = Some (PStr (concat (lines v))) \<and> r ''truncated'' = Some (PBool (truncated v))"
      by (auto simp: timeout_result_def ended_result_def done_result_def)
    with Cons.prems(1) ord show ?thesis by auto
  next
    case Never
    with Cons.prems(2) show ?thesis by simp
  qed
qed

lemma capture_inv_init:
  "0 \<le> MAX_OUTPUT_CHARS cfg \<Longrightarrow> 0 \<le> MAX_OUTPUT_LINES cfg \<Longrightarrow> capture_inv cfg init_vars []"
  by (simp add: capture_inv_def init_vars_def)

lemma line_count_append: "line_count (a @ b) \<le> line_count a + line_count b"
  by (cases "b = []") (auto simp: line_count_def)

lemma line_count_readline: "readline_shaped l \<Longrightarrow> line_count l \<le> 1"
proof (cases l rule: rev_cases)
  case Nil
  then show ?thesis by (simp add: line_count_def)
next
  case (snoc ys y)
  assume "readline_shaped l"
  with snoc have "filter (\<lambda>c. c = CHR 0x0A) ys = []"
    by (auto simp: readline_shaped_def filter_empty_conv)
  with snoc show ?thesis by (simp add: line_count_def)
qed

lemma line_count_concat:
  "\<forall>l \<in> set ls. readline_shaped l \<Longrightarrow> line_count (concat ls) \<le> length ls"
proof (induction ls)
  case Nil
  then show ?case by (simp add: line_count_def)
next
  case (Cons l ls)
  have "line_count (concat (l # ls)) \<le> line_count l + line_count (concat ls)"
    using line_count_append[of l "concat ls"] by simp
  also have "\<dots> \<le> 1 + length ls"
    using Cons line_count_readline[of l] by (simp add: add_mono)
  finally show ?case by simp
qed

lemma ordinary_lines_read:
  "l \<in> set (ordinary_lines c d T es) \<Longrightarrow> \<exists>e \<in> set es. snd e = Ready l"
  by (induction c d T es rule: ordinary_lines.induct) (auto split: if_splits)

lemma capped_run:
  "read_until_done small_config proc0 ''C'' ''D'' (Finite 20) capped_events =
     Some (Inr [''ok'' \<mapsto> PBool True, ''stdout'' \<mapsto> PStr (''abc'' @ [CHR 0x0A]),
                ''exit_code'' \<mapsto> PInt 0, ''cwd_after'' \<mapsto> PNone, ''truncated'' \<mapsto> PBool True])"
  by (simp add: read_until_done_def proc0_def capped_events_def small_config_def init_vars_def
      loop_body_def done_result_def string_defs)

text \<open>
  C1. Whatever way the loop returns a result, the returned \<open>stdout\<close> is the concatenation of
  an initial segment of the ordinary lines read: once one line is dropped, every later one is
  dropped too. The text has at most \<open>MAX_OUTPUT_CHARS\<close> characters and at most
  \<open>MAX_OUTPUT_LINES\<close> lines, \<open>truncated\<close> says whether a line was dropped, and it is true
  whenever the ordinary output exceeds one of the two caps. The caps are taken non-negative,
  and a line read has no newline before its end.
\<close>

theorem C1_output_caps:
  assumes chars: "0 \<le> MAX_OUTPUT_CHARS cfg" and lns: "0 \<le> MAX_OUTPUT_LINES cfg"
    and run: "read_until_done cfg p c d T es = Some (Inr r)"
    and shaped: "\<forall>e \<in> set es. \<forall>l. snd e = Ready l \<longrightarrow> readline_shaped l"
  shows "\<exists>stored.
           r ''stdout'' = Some (PStr (concat stored))
         \<and> prefix stored (ordinary_lines c d T es)
         \<and> r ''truncated'' = Some (PBool (stored \<noteq> ordinary_lines c d T es))
         \<and> int (length (concat stored)) \<le> MAX_OUTPUT_CHARS cfg
         \<and> int (length stored) \<le> MAX_OUTPUT_LINES cfg
         \<and> int (line_count (concat stored)) \<le> MAX_OUTPUT_LINES cfg
         \<and> (MAX_OUTPUT_CHARS cfg < int (length (concat (ordinary_lines c d T es)))
              \<or> MAX_OUTPUT_LINES cfg < int (length (ordinary_lines c d T es))
            \<longrightarrow> r ''truncated'' = Some (PBool True))"
proof -
  from run have loop: "read_loop cfg c d T init_vars es = Some (Inr r)"
    by (simp add: read_until_done_def split: if_splits)
  from read_loop_capture[OF capture_inv_init[OF chars lns] loop]
  obtain v where inv: "capture_inv cfg v (ordinary_lines c d T es)"
    and out: "r ''stdout'' = Some (PStr (concat (lines v)))"
    and tr: "r ''truncated'' = Some (PBool (truncated v))" by auto
  have pre: "prefix (lines v) (ordinary_lines c d T es)"
    and trunc: "truncated v \<longleftrightarrow> lines v \<noteq> ordinary_lines c d T es"
    and nchars: "int (length (concat (lines v))) \<le> MAX_OUTPUT_CHARS cfg"
    and nlines: "int (length (lines v)) \<le> MAX_OUTPUT_LINES cfg"
    using inv by (auto simp: capture_inv_def)
  have "set (lines v) \<subseteq> set (ordinary_lines c d T es)"
    using pre by (rule set_mono_prefix)
  with shaped have "\<forall>l \<in> set (lines v). readline_shaped l"
    by (meson ordinary_lines_read subsetD)
  from line_count_concat[OF this] nlines
  have cnt: "int (line_count (concat (lines v))) \<le> MAX_OUTPUT_LINES cfg" by linarith
  have exceed: "MAX_OUTPUT_CHARS cfg < int (length (concat (ordinary_lines c d T es)))
              \<or> MAX_OUTPUT_LINES cfg < int (length (ordinary_lines c d T es))
            \<longrightarrow> r ''truncated'' = Some (PBool True)"
    using trunc nchars nlines tr by auto
  have "r ''truncated'' = Some (PBool (lines v \<noteq> ordinary_lines c d T es))"
    using tr trunc by simp
  with out pre nchars nlines cnt exceed show ?thesis
    by (intro exI[of _ "lines v"]) simp
qed

theorem C1_output_caps_witness:
  "0 \<le> MAX_OUTPUT_CHARS small_config \<and> 0 \<le> MAX_OUTPUT_LINES small_config
   \<and> list_all readline_shaped
         [''abc'' @ [CHR 0x0A], ''defg'' @ [CHR 0x0A], ''x'' @ [CHR 0x0A], ''D:0'' @ [CHR 0x0A]]
   \<and> read_until_done small_config proc0 ''C'' ''D'' (Finite 20) capped_events =
       Some (Inr [''ok'' \<mapsto> PBool True, ''stdout'' \<mapsto> PStr (''abc'' @ [CHR 0x0A]),
                  ''exit_code'' \<mapsto> PInt 0, ''cwd_after'' \<mapsto> PNone, ''truncated'' \<mapsto> PBool True])
   \<and> (\<exists>stored.
         PStr (''abc'' @ [CHR 0x0A]) = PStr (concat stored)
       \<and> prefix stored (ordinary_lines ''C'' ''D'' (Finite 20) capped_events)
       \<and> (stored \<noteq> ordinary_lines ''C'' ''D'' (Finite 20) capped_events)
       \<and> int (length (concat stored)) \<le> 6
       \<and> int (line_count (concat stored)) \<le> 800)"
proof -
  have c: "0 \<le> MAX_OUTPUT_CHARS small_config" and l: "0 \<le> MAX_OUTPUT_LINES small_config"
    by (simp_all add: small_config_def)
  have sh: "\<forall>e \<in> set capped_events. \<forall>l. snd e = Ready l \<longrightarrow> readline_shaped l"
    by (simp add: capped_events_def readline_shaped_def)
  from C1_output_caps[OF c l capped_run sh]
  have "\<exists>stored.
         PStr (''abc'' @ [CHR 0x0A]) = PStr (concat stored)
       \<and> prefix stored (ordinary_lines ''C'' ''D'' (Finite 20) capped_events)
       \<and> (stored \<noteq> ordinary_lines ''C'' ''D'' (Finite 20) capped_events)
       \<and> int (length (concat stored)) \<le> 6
       \<and> int (line_count (concat stored)) \<le> 800"
    by (auto simp: small_config_def)
  moreover have "list_all readline_shaped
         [''abc'' @ [CHR 0x0A], ''defg'' @ [CHR 0x0A], ''x'' @ [CHR 0x0A], ''D:0'' @ [CHR 0x0A]]"
    by (simp add: readline_shaped_def)
  ultimately show ?thesis using c l capped_run by blast
qed

subsection \<open>Timeout and end of stream\<close>

lemma ensure_live:
  "ensure_shell e1 e2 live_session = (Inr proc0, live_session)"
  by (simp add: ensure_shell_def respawn_if_exited_def live_session_def proc0_def)

lemma execute_reads:
  assumes "ensure_shell (spawn1 e) (spawn2 e) st = (Inr p, st1)" "stdin p" "stdout p"
    and "payload_raises e = None"
  shows "execute cfg e cmd timeout_sec st =
     (read_loop cfg (mk_cwd_marker (uid e)) (mk_done_marker (uid e)) timeout_sec init_vars (events e),
      st1\<lparr>trace := trace st1 @
        [Write (pid p) (mk_payload cmd (mk_cwd_marker (uid e)) (mk_done_marker (uid e)))]\<rparr>)"
  using assms by (simp add: execute_def read_until_done_def Let_def)

lemma vars_after_init_exit_code:
  "vars_after cfg c d T init_vars pre = Some v \<Longrightarrow> exit_code v = None"
  by (drule vars_after_exit_code) (simp add: init_vars_def)

lemma execute_timeout:
  assumes ens: "ensure_shell (spawn1 e) (spawn2 e) st = (Inr p, st1)"
    and pipes: "stdin p" "stdout p"
    and wr: "payload_raises e = None"
    and evs: "events e = pre @ (t, a) # post"
    and before: "vars_after cfg (mk_cwd_marker (uid e)) (mk_done_marker (uid e)) timeout_sec
                   init_vars pre = Some v"
    and late: "elapsed_gt t timeout_sec"
  shows "execute cfg e cmd timeout_sec st =
     (Some (Inr [''ok'' \<mapsto> PBool False,
                 ''error'' \<mapsto> PStr (''timeout after '' @ fmt_1f timeout_sec @ ''s''),
                 ''stdout'' \<mapsto> PStr (concat (lines v)),
                 ''exit_code'' \<mapsto> PNone,
                 ''cwd_after'' \<mapsto> opt_str (cwd_after v),
                 ''truncated'' \<mapsto> PBool (truncated v)]),
      st1\<lparr>trace := trace st1 @
        [Write (pid p) (mk_payload cmd (mk_cwd_marker (uid e)) (mk_done_marker (uid e)))]\<rparr>)"
proof -
  have "read_loop cfg (mk_cwd_marker (uid e)) (mk_done_marker (uid e)) timeout_sec init_vars
          (events e) = Some (Inr (timeout_result timeout_sec v))"
    unfolding evs using read_loop_append[OF before] loop_body_timeout[OF late] by simp
  moreover have "exit_code v = None"
    using before by (rule vars_after_init_exit_code)
  ultimately show ?thesis
    using execute_reads[OF ens pipes wr] by (simp add: timeout_result_def)
qed

lemma fmt_1f_20: "fmt_1f (Finite 20) = ''20.0''"
  by (simp add: fmt_1f_def round_half_even_def Let_def)

lemma read_loop_Blocks:
  "read_loop cfg c d T v ((t, Blocks) # es) =
     (if elapsed_gt t T then Some (Inr (timeout_result T v)) else None)"
  by (simp add: loop_body_def)

text \<open>
  C2. A pass of the loop that begins with the elapsed time above the timeout returns the
  timeout failure (\<open>execute_timeout\<close>). The clock is read only at the start of a pass, though,
  and a pass that begins in time can stay in \<open>readline\<close>: \<open>select\<close> reports the pipe readable
  as soon as the start of a line is there, and \<open>readline\<close> then waits for the newline. When
  the command prints text without a newline and goes on running, the elapsed time exceeds
  the timeout, no pass begins any more and nothing is returned; the payload has been
  written and the session is left as it was.
\<close>

theorem C2_unfinished_line_blocks:
  "execute_command default_config (exec_with unfinished_line_events) 0
     (Some ''printf x; sleep infinity'') (Finite 1) live_session =
   (None,
    live_session\<lparr>trace :=
      [Write 0 (mk_payload ''printf x; sleep infinity'' (mk_cwd_marker ''ab'')
                  (mk_done_marker ''ab''))]\<rparr>)"
proof -
  have "trace live_session = []" by (simp add: live_session_def)
  then show ?thesis
    by (simp add: execute_command_def execute_def ensure_live exec_with_def proc0_def
        read_until_done_def unfinished_line_events_def loop_body_def
        py_strip_def py_isspace_def Let_def)
qed

text \<open>
  C6. When a pass of the loop reads the empty string, the end of the stream, \<open>_execute\<close>
  returns at once the failure \<open>shell session ended unexpectedly\<close> with the output captured
  up to that pass and no exit code.
\<close>

theorem C6_stream_closed:
  assumes ens: "ensure_shell (spawn1 e) (spawn2 e) st = (Inr p, st1)"
    and pipes: "stdin p" "stdout p"
    and wr: "payload_raises e = None"
    and evs: "events e = pre @ (t, Ready []) # post"
    and before: "vars_after cfg (mk_cwd_marker (uid e)) (mk_done_marker (uid e)) timeout_sec
                   init_vars pre = Some v"
    and in_time: "\<not> elapsed_gt t timeout_sec"
  shows "fst (execute cfg e cmd timeout_sec st) =
     Some (Inr [''ok'' \<mapsto> PBool False,
                ''error'' \<mapsto> PStr ''shell session ended unexpectedly'',
                ''stdout'' \<mapsto> PStr (concat (lines v)),
                ''exit_code'' \<mapsto> PNone,
                ''cwd_after'' \<mapsto> opt_str (cwd_after v),
                ''truncated'' \<mapsto> PBool (truncated v)])"
proof -
  from in_time have "read_loop cfg (mk_cwd_marker (uid e)) (mk_done_marker (uid e)) timeout_sec init_vars
          (events e) = Some (Inr (ended_result v))"
    unfolding evs using read_loop_append[OF before] loop_body_ended by simp
  moreover have "exit_code v = None"
    using before by (rule vars_after_init_exit_code)
  ultimately show ?thesis
    using execute_reads[OF ens pipes wr] by (simp add: ended_result_def)
qed

theorem C6_stream_closed_witness:
  "fst (execute default_config (exec_with dying_events) ''exit 3'' (Finite 20) live_session) =
     Some (Inr [''ok'' \<mapsto> PBool False,
                ''error'' \<mapsto> PStr ''shell session ended unexpectedly'',
                ''stdout'' \<mapsto> PStr (''bye'' @ [CHR 0x0A]),
                ''exit_code'' \<mapsto> PNone,
                ''cwd_after'' \<mapsto> PNone,
                ''truncated'' \<mapsto> PBool False])"
proof -
  let ?v = "init_vars\<lparr>lines := [''bye'' @ [CHR 0x0A]], stored_lines := 1, stored_chars := 4\<rparr>"
  have ens: "ensure_shell (spawn1 (exec_with dying_events)) (spawn2 (exec_with dying_events))
               live_session = (Inr proc0, live_session)"
    by (rule ensure_live)
  have evs: "events (exec_with dying_events) =
      [(0, Ready (''bye'' @ [CHR 0x0A]))] @ (1, Ready []) # []"
    by (simp add: exec_with_def dying_events_def)
  have before: "vars_after default_config (mk_cwd_marker (uid (exec_with dying_events)))
       (mk_done_marker (uid (exec_with dying_events))) (Finite 20) init_vars
       [(0, Ready (''bye'' @ [CHR 0x0A]))] = Some ?v"
    by (simp add: exec_with_def loop_body_def default_config_def init_vars_def
        mk_cwd_marker_def mk_done_marker_def string_defs)
  from C6_stream_closed[OF ens _ _ _ evs before, of "''exit 3''"]
  show ?thesis
    by (simp add: proc0_def exec_with_def init_vars_def)
qed

subsection \<open>Marker lines\<close>

lemma loop_body_cwd_marker:
  assumes "\<not> elapsed_gt t timeout_sec" "line \<noteq> []" "startswith line cwd_marker"
    and "split_colon_1 line = Some rest"
  shows "loop_body cfg cwd_marker done_marker timeout_sec v (t, Ready line) =
           Continue (v\<lparr>cwd_after := Some (py_strip rest)\<rparr>)"
  using assms by (simp add: loop_body_def)

lemma loop_body_done_marker:
  assumes "\<not> elapsed_gt t timeout_sec" "line \<noteq> []" "\<not> startswith line cwd_marker"
    and "startswith line done_marker"
  shows "loop_body cfg cwd_marker done_marker timeout_sec v (t, Ready line) =
           Return (Inr (done_result (v\<lparr>exit_code :=
             (case split_colon_1 line of None \<Rightarrow> None
              | Some rest \<Rightarrow> py_int (py_strip rest))\<rparr>)))"
  using assms by (simp add: loop_body_def)

lemma startswith_append: "startswith s (a @ b) \<Longrightarrow> startswith s a"
proof -
  assume "startswith s (a @ b)"
  then have "take (length a) (take (length a + length b) s) = take (length a) (a @ b)"
    by (simp add: startswith_def)
  then show ?thesis by (simp add: startswith_def min_def)
qed

lemma markers_differ:
  assumes "startswith line (mk_done_marker u)"
  shows "\<not> startswith line (mk_cwd_marker u)"
proof
  assume "startswith line (mk_cwd_marker u)"
  then have "startswith line (''__MCP_C'' @ (''WD_'' @ u @ ''__''))"
    by (simp add: mk_cwd_marker_def)
  then have c: "startswith line ''__MCP_C''" by (rule startswith_append)
  from assms have "startswith line (''__MCP_D'' @ (''ONE_'' @ u @ ''__''))"
    by (simp add: mk_done_marker_def)
  then have "startswith line ''__MCP_D''" by (rule startswith_append)
  with c show False by (simp add: startswith_def)
qed

text \<open>
  C5. A line that begins with the working-directory marker and holds a colon is parsed into
  \<open>cwd_after\<close> and not stored (\<open>loop_body_cwd_marker\<close>); a line that begins with the done
  marker ends the loop with the parsed exit code, or none when the text after the colon is no
  integer (\<open>loop_body_done_marker\<close>, \<open>markers_differ\<close>). A line that begins with the
  working-directory marker and holds no colon is not parsed: the index into the split raises
  IndexError, which no handler catches, and the tool call ends with that exception. The
  command below makes the shell print such a line, by reading the trailer from its input.
\<close>

theorem C5_marker_without_colon:
  "fst (execute_command default_config (exec_with bare_marker_events) 5
          (Some ''read -r a; read -r b; read -r c; echo ${b:8:14}'') (Finite 20) live_session) =
     Some (Inl IndexError)"
  by (simp add: execute_command_def execute_def ensure_live exec_with_def proc0_def
      read_until_done_def bare_marker_events_def loop_body_def mk_cwd_marker_def
      string_defs)

section \<open>Properties of the session and of the tools\<close>

subsection \<open>Blank commands\<close>

lemma py_strip_blank: "py_strip s = [] \<longleftrightarrow> (\<forall>c \<in> set s. py_isspace c)"
proof
  assume "py_strip s = []"
  then have all: "\<forall>x \<in> set (dropWhile py_isspace s). py_isspace x"
    by (simp add: py_strip_def)
  have "dropWhile py_isspace s = []"
  proof (rule ccontr)
    assume ne: "dropWhile py_isspace s \<noteq> []"
    then have "\<not> py_isspace (hd (dropWhile py_isspace s))" by (rule hd_dropWhile)
    moreover have "hd (dropWhile py_isspace s) \<in> set (dropWhile py_isspace s)"
      using ne by simp
    ultimately show False using all by blast
  qed
  then show "\<forall>c \<in> set s. py_isspace c" by simp
next
  assume "\<forall>c \<in> set s. py_isspace c"
  then show "py_strip s = []" by (auto simp: py_strip_def dest: set_dropWhileD)
qed

text \<open>
  C7. For a command that is None, empty or all whitespace, \<open>execute_command\<close> returns the
  result with \<open>ok\<close> false at once, and the state after the call is the state before it: the
  session reference, the processes and the trace of calls on them are unchanged.
\<close>

theorem C7_blank_command:
  assumes "case cmd of None \<Rightarrow> True | Some c \<Rightarrow> list_all py_isspace c"
  shows "execute_command cfg e ms cmd timeout_sec st = (Some (Inr empty_command_result), st)
       \<and> empty_command_result ''ok'' = Some (PBool False)"
  using assms
  by (auto simp: execute_command_def py_strip_blank list_all_iff empty_command_result_def
      split: option.splits)

theorem C7_blank_command_witness:
  "list_all py_isspace blank_command
   \<and> execute_command default_config (exec_with done_events) 0 (Some blank_command) (Finite 20)
         live_session = (Some (Inr empty_command_result), live_session)
   \<and> execute_command default_config (exec_with done_events) 0 None (Finite 20) no_session =
         (Some (Inr empty_command_result), no_session)"
proof -
  have b: "list_all py_isspace blank_command"
    by (simp add: blank_command_def py_isspace_def)
  from C7_blank_command[of "Some blank_command" default_config "exec_with done_events" 0
      "Finite 20" live_session]
    C7_blank_command[of None default_config "exec_with done_events" 0 "Finite 20" no_session] b
  show ?thesis by simp
qed

subsection \<open>Stopping and ensuring the session\<close>

text \<open>
  C9. Whatever \<open>terminate\<close>, \<open>wait\<close> and \<open>kill\<close> raise, \<open>terminate_terminal\<close> returns the result
  with \<open>ok\<close> true and no session reference remains; without a session the call changes
  nothing.
\<close>

theorem C9_terminate:
  "fst (terminate_terminal e st) =
     [''ok'' \<mapsto> PBool True, ''message'' \<mapsto> PStr ''terminal session terminated'']
   \<and> session (snd (terminate_terminal e st)) = None
   \<and> (session st = None \<longrightarrow> snd (terminate_terminal e st) = st)"
  by (auto simp: terminate_terminal_def stop_shell_def Let_def
      split: option.splits sum.splits)

theorem C9_terminate_witness:
  "session no_session = None
   \<and> snd (terminate_terminal failing_stop no_session) = no_session
   \<and> fst (terminate_terminal failing_stop live_session) ''ok'' = Some (PBool True)
   \<and> session (snd (terminate_terminal failing_stop live_session)) = None"
proof -
  have "session no_session = None" by (simp add: no_session_def)
  with C9_terminate[of failing_stop no_session] C9_terminate[of failing_stop live_session]
  show ?thesis by simp
qed

lemma start_shell_ok:
  "spawn_ok e \<Longrightarrow>
   start_shell e st =
     (Inr \<lparr>proc = \<lparr>pid = spawned st, stdin = True, stdout = True\<rparr>\<rparr>,
      st\<lparr>returncode := (returncode st)(spawned st := rc0 e),
         spawned := Suc (spawned st),
         trace := trace st @ [Spawn (spawned st),
           Write (spawned st) (''export PS1='' @ [CHR 0x27, CHR 0x27, CHR 0x0A])]\<rparr>)"
  by (simp add: spawn_ok_def start_shell_def Let_def)

lemma respawn_running:
  "returncode st (pid (proc s)) = None \<Longrightarrow> respawn_if_exited e s st = (Inr (proc s), st)"
  by (simp add: respawn_if_exited_def)

lemma respawn_exited:
  assumes "returncode st (pid (proc s)) \<noteq> None" "spawn_ok e"
  shows "\<exists>p st'. respawn_if_exited e s st = (Inr p, st') \<and> session st' = Some \<lparr>proc = p\<rparr>
           \<and> pid p = spawned st \<and> spawned st' = Suc (spawned st) \<and> stdin p \<and> stdout p"
  using assms by (simp add: respawn_if_exited_def start_shell_ok)

lemma ensure_spawns:
  assumes need: "session st = None \<or> (\<exists>s. session st = Some s \<and> returncode st (pid (proc s)) \<noteq> None)"
    and ok1: "spawn_ok e1"
    and ok2: "session st = None \<and> rc0 e1 \<noteq> None \<longrightarrow> spawn_ok e2"
  shows "\<exists>p st'. ensure_shell e1 e2 st = (Inr p, st') \<and> session st' = Some \<lparr>proc = p\<rparr>
           \<and> spawned st \<le> pid p \<and> pid p < spawned st' \<and> stdin p \<and> stdout p"
proof (cases "session st")
  case None
  let ?s = "\<lparr>proc = \<lparr>pid = spawned st, stdin = True, stdout = True\<rparr>\<rparr>"
  let ?st1 = "st\<lparr>returncode := (returncode st)(spawned st := rc0 e1),
         spawned := Suc (spawned st),
         trace := trace st @ [Spawn (spawned st),
           Write (spawned st) (''export PS1='' @ [CHR 0x27, CHR 0x27, CHR 0x0A])],
         session := Some ?s\<rparr>"
  have ens: "ensure_shell e1 e2 st = respawn_if_exited e2 ?s ?st1"
    using None ok1 by (simp add: ensure_shell_def start_shell_ok)
  show ?thesis
  proof (cases "rc0 e1")
    case None
    then show ?thesis using ens by (simp add: respawn_if_exited_def)
  next
    case (Some rc)
    with ok2 \<open>session st = None\<close> have "spawn_ok e2" by simp
    with ens Some show ?thesis
      by (simp add: respawn_if_exited_def start_shell_ok)
  qed
next
  case (Some s)
  with need have "returncode st (pid (proc s)) \<noteq> None" by simp
  from respawn_exited[OF this ok1] Some show ?thesis
    by (auto simp: ensure_shell_def)
qed

text \<open>
  C4. Without a session, or with one whose process has exited, \<open>_ensure_shell\<close> starts a
  shell, stores it and returns the handle of a process created in this call; this is also
  the state after \<open>terminate_terminal\<close>, so no \<open>initiate_terminal\<close> is needed before the next
  command. With a session whose process runs, it returns that process and changes nothing.
  Here each \<open>_start_shell\<close> the call makes succeeds.
\<close>

theorem C4_ensure:
  assumes ok1: "spawn_ok e1" and ok2: "spawn_ok e2"
  shows "(session st = None \<or> (\<exists>s. session st = Some s \<and> returncode st (pid (proc s)) \<noteq> None)
          \<longrightarrow> (\<exists>p st'. ensure_shell e1 e2 st = (Inr p, st') \<and> session st' = Some \<lparr>proc = p\<rparr>
                 \<and> spawned st \<le> pid p \<and> pid p < spawned st' \<and> stdin p \<and> stdout p))
       \<and> (\<exists>p st'. ensure_shell e1 e2 (snd (terminate_terminal se st)) = (Inr p, st')
                 \<and> session st' = Some \<lparr>proc = p\<rparr>
                 \<and> spawned st \<le> pid p \<and> pid p < spawned st' \<and> stdin p \<and> stdout p)
       \<and> (\<forall>s. session st = Some s \<and> returncode st (pid (proc s)) = None
          \<longrightarrow> ensure_shell e1 e2 st = (Inr (proc s), st))"
proof (intro conjI impI allI)
  assume "session st = None \<or> (\<exists>s. session st = Some s \<and> returncode st (pid (proc s)) \<noteq> None)"
  from ensure_spawns[OF this ok1] ok2
  show "\<exists>p st'. ensure_shell e1 e2 st = (Inr p, st') \<and> session st' = Some \<lparr>proc = p\<rparr>
           \<and> spawned st \<le> pid p \<and> pid p < spawned st' \<and> stdin p \<and> stdout p" by simp
next
  let ?st = "snd (terminate_terminal se st)"
  have none: "session ?st = None"
    by (auto simp: terminate_terminal_def stop_shell_def Let_def split: option.splits sum.splits)
  have same: "spawned ?st = spawned st"
    by (auto simp: terminate_terminal_def stop_shell_def Let_def split: option.splits sum.splits)
  from none have "session ?st = None \<or> (\<exists>s. session ?st = Some s \<and> returncode ?st (pid (proc s)) \<noteq> None)"
    by simp
  from ensure_spawns[OF this ok1] ok2 same
  show "\<exists>p st'. ensure_shell e1 e2 ?st = (Inr p, st') \<and> session st' = Some \<lparr>proc = p\<rparr>
           \<and> spawned st \<le> pid p \<and> pid p < spawned st' \<and> stdin p \<and> stdout p" by simp
next
  fix s assume "session st = Some s \<and> returncode st (pid (proc s)) = None"
  then show "ensure_shell e1 e2 st = (Inr (proc s), st)"
    by (simp add: ensure_shell_def respawn_running)
qed

theorem C4_ensure_witness:
  "spawn_ok ok_spawn
   \<and> session no_session = None
   \<and> (\<exists>p st'. ensure_shell ok_spawn ok_spawn no_session = (Inr p, st')
          \<and> session st' = Some \<lparr>proc = p\<rparr>
          \<and> spawned no_session \<le> pid p \<and> pid p < spawned st' \<and> stdin p \<and> stdout p)
   \<and> session live_session = Some \<lparr>proc = proc0\<rparr>
   \<and> returncode live_session (pid proc0) = None
   \<and> ensure_shell ok_spawn ok_spawn live_session = (Inr proc0, live_session)
   \<and> fst (execute_command default_config (exec_with done_events) 5 (Some ''echo hi'') (Finite 20)
            (snd (terminate_terminal failing_stop live_session))) =
       Some (Inr [''ok'' \<mapsto> PBool True, ''stdout'' \<mapsto> PStr (''hi'' @ [CHR 0x0A]),
                  ''exit_code'' \<mapsto> PInt 0, ''cwd_after'' \<mapsto> PStr ''/home/u'',
                  ''truncated'' \<mapsto> PBool False, ''cmd'' \<mapsto> PStr ''echo hi'',
                  ''duration_ms'' \<mapsto> PInt 5])"
proof -
  have ok: "spawn_ok ok_spawn" by (simp add: spawn_ok_def ok_spawn_def)
  have none: "session no_session = None" by (simp add: no_session_def)
  have live: "session live_session = Some \<lparr>proc = proc0\<rparr>"
    "returncode live_session (pid proc0) = None"
    by (simp_all add: live_session_def)
  note th = C4_ensure[OF ok ok]
  have fresh: "\<exists>p st'. ensure_shell ok_spawn ok_spawn no_session = (Inr p, st')
          \<and> session st' = Some \<lparr>proc = p\<rparr>
          \<and> spawned no_session \<le> pid p \<and> pid p < spawned st' \<and> stdin p \<and> stdout p"
    using th[of no_session failing_stop] none by blast
  have kept: "ensure_shell ok_spawn ok_spawn live_session = (Inr proc0, live_session)"
    using th[of live_session failing_stop] live by simp
  have run: "fst (execute_command default_config (exec_with done_events) 5 (Some ''echo hi'') (Finite 20)
            (snd (terminate_terminal failing_stop live_session))) =
       Some (Inr [''ok'' \<mapsto> PBool True, ''stdout'' \<mapsto> PStr (''hi'' @ [CHR 0x0A]),
                  ''exit_code'' \<mapsto> PInt 0, ''cwd_after'' \<mapsto> PStr ''/home/u'',
                  ''truncated'' \<mapsto> PBool False, ''cmd'' \<mapsto> PStr ''echo hi'',
                  ''duration_ms'' \<mapsto> PInt 5])"
    by (simp add: execute_command_def execute_def terminate_terminal_def stop_shell_def
        failing_stop_def live_session_def proc0_def ensure_shell_def respawn_if_exited_def
        start_shell_def exec_with_def ok_spawn_def read_until_done_def done_events_def
        loop_body_def default_config_def init_vars_def done_result_def dget_def
        int_of_float_def mk_cwd_marker_def mk_done_marker_def string_defs Let_def)
  from ok none fresh live kept run show ?thesis by blast
qed

subsection \<open>Failures at the tool boundary\<close>

lemma stop_shell_session: "session (stop_shell e st) = None"
  by (auto simp: stop_shell_def Let_def split: option.splits sum.splits)

lemma ensure_start_fails:
  assumes "session st = None \<or> (\<exists>s. session st = Some s \<and> returncode st (pid (proc s)) \<noteq> None)"
    and "fst (start_shell e1 st) = Inl x"
  shows "fst (ensure_shell e1 e2 st) = Inl x"
  using assms
  by (cases "start_shell e1 st")
     (auto simp: ensure_shell_def respawn_if_exited_def split: option.splits)

lemma execute_ensure_fails:
  "fst (ensure_shell (spawn1 e) (spawn2 e) st) = Inl x \<Longrightarrow>
   fst (execute cfg e cmd timeout_sec st) = Some (Inl x)"
  by (cases "ensure_shell (spawn1 e) (spawn2 e) st") (auto simp: execute_def)

lemma execute_command_failed_pass:
  assumes ens: "ensure_shell (spawn1 e) (spawn2 e) st = (Inr p, st1)"
    and pipes: "stdin p" "stdout p"
    and wr: "payload_raises e = None"
    and evs: "events e = pre @ (t, a) # post"
    and before: "vars_after cfg (mk_cwd_marker (uid e)) (mk_done_marker (uid e)) timeout_sec
                   init_vars pre = Some v"
    and fails: "elapsed_gt t timeout_sec \<or> a = Ready []"
    and cmd: "py_strip c \<noteq> []"
  shows "\<exists>r m. fst (execute_command cfg e ms (Some c) timeout_sec st) = Some (Inr r)
           \<and> r ''ok'' = Some (PBool False) \<and> r ''error'' = Some (PStr m)
           \<and> r ''stdout'' = Some (PStr (concat (lines v)))"
proof -
  let ?c = "mk_cwd_marker (uid e)" and ?d = "mk_done_marker (uid e)"
  have "loop_body cfg ?c ?d timeout_sec v (t, a) = Return (Inr (timeout_result timeout_sec v))
      \<or> loop_body cfg ?c ?d timeout_sec v (t, a) = Return (Inr (ended_result v))"
    using fails by (auto simp: loop_body_def)
  then have "read_loop cfg ?c ?d timeout_sec init_vars (events e)
               = Some (Inr (timeout_result timeout_sec v))
      \<or> read_loop cfg ?c ?d timeout_sec init_vars (events e) = Some (Inr (ended_result v))"
    unfolding evs using read_loop_append[OF before] by auto
  then obtain res m where res: "execute cfg e c timeout_sec st =
        (Some (Inr res), st1\<lparr>trace := trace st1 @ [Write (pid p) (mk_payload c ?c ?d)]\<rparr>)"
    and ok: "res ''ok'' = Some (PBool False)"
    and err: "res ''error'' = Some (PStr m)"
    and out: "res ''stdout'' = Some (PStr (concat (lines v)))"
    using execute_reads[OF ens pipes wr, of cfg c timeout_sec]
    by (auto simp: timeout_result_def ended_result_def)
  let ?r = "res(''cmd'' \<mapsto> PStr c, ''duration_ms'' \<mapsto> PInt (int_of_float ms))"
  have "fst (execute_command cfg e ms (Some c) timeout_sec st) = Some (Inr ?r)"
    using cmd res ok by (simp add: execute_command_def dget_def Let_def)
  moreover have "?r ''ok'' = Some (PBool False)" "?r ''error'' = Some (PStr m)"
    "?r ''stdout'' = Some (PStr (concat (lines v)))"
    using ok err out by simp_all
  ultimately show ?thesis by blast
qed

text \<open>
  C3. A blank command, and a timeout or an end of the stream that a pass of the read loop
  finds, come back from \<open>execute_command\<close> as results with \<open>ok\<close> false and an \<open>error\<close> text,
  and \<open>terminate_terminal\<close> returns its result whatever the calls on the process raise. A
  spawn failure is not converted: when \<open>_start_shell\<close> raises (what \<open>Popen\<close> raises, such as
  FileNotFoundError for a missing shell, or the RuntimeError for missing pipes), that
  exception leaves \<open>execute_command\<close> and \<open>initiate_terminal\<close>.
\<close>

theorem C3_failures_at_the_boundary:
  assumes need: "session st = None
                 \<or> (\<exists>s. session st = Some s \<and> returncode st (pid (proc s)) \<noteq> None)"
    and fails: "fst (start_shell (spawn1 e) st) = Inl x"
    and cmd: "py_strip c \<noteq> []"
    and fails0: "fst (start_shell (ens1 ie) (stop_shell (stop ie) st0)) = Inl y"
    and ens: "ensure_shell (spawn1 e') (spawn2 e') st' = (Inr p, st1)"
    and pipes: "stdin p" "stdout p"
    and wr: "payload_raises e' = None"
    and evs: "events e' = pre @ (t, a) # post"
    and before: "vars_after cfg (mk_cwd_marker (uid e')) (mk_done_marker (uid e')) timeout_sec
                   init_vars pre = Some v"
    and bad_pass: "elapsed_gt t timeout_sec \<or> a = Ready []"
    and blank: "case cmd of None \<Rightarrow> True | Some b \<Rightarrow> list_all py_isspace b"
  shows "fst (execute_command cfg e ms (Some c) timeout_sec st) = Some (Inl x)
       \<and> fst (initiate_terminal cfg ie st0) = Some (Inl y)
       \<and> (\<exists>r m. fst (execute_command cfg e' ms (Some c) timeout_sec st') = Some (Inr r)
              \<and> r ''ok'' = Some (PBool False) \<and> r ''error'' = Some (PStr m)
              \<and> r ''stdout'' = Some (PStr (concat (lines v))))
       \<and> (\<exists>r m. fst (execute_command cfg e ms cmd timeout_sec st) = Some (Inr r)
              \<and> r ''ok'' = Some (PBool False) \<and> r ''error'' = Some (PStr m))
       \<and> fst (terminate_terminal se st) ''ok'' = Some (PBool True)"
proof -
  have "fst (execute cfg e c timeout_sec st) = Some (Inl x)"
    using ensure_start_fails[OF need fails] by (rule execute_ensure_fails)
  then have a: "fst (execute_command cfg e ms (Some c) timeout_sec st) = Some (Inl x)"
    using cmd by (cases "execute cfg e c timeout_sec st") (simp add: execute_command_def)
  have "fst (ensure_shell (ens1 ie) (ens2 ie) (stop_shell (stop ie) st0)) = Inl y"
    using fails0 by (intro ensure_start_fails) (simp_all add: stop_shell_session)
  then have b: "fst (initiate_terminal cfg ie st0) = Some (Inl y)"
    by (cases "ensure_shell (ens1 ie) (ens2 ie) (stop_shell (stop ie) st0)")
       (simp add: initiate_terminal_def)
  note c = execute_command_failed_pass[OF ens pipes wr evs before bad_pass cmd, of ms]
  have "fst (execute_command cfg e ms cmd timeout_sec st) = Some (Inr empty_command_result)"
    using blank
    by (auto simp: execute_command_def py_strip_blank list_all_iff split: option.splits)
  moreover have "empty_command_result ''ok'' = Some (PBool False)"
    "empty_command_result ''error'' = Some (PStr ''empty command'')"
    by (simp_all add: empty_command_result_def)
  ultimately have d: "\<exists>r m. fst (execute_command cfg e ms cmd timeout_sec st) = Some (Inr r)
              \<and> r ''ok'' = Some (PBool False) \<and> r ''error'' = Some (PStr m)"
    by blast
  have t: "fst (terminate_terminal se st) ''ok'' = Some (PBool True)"
    by (simp add: terminate_terminal_def)
  from a b c d t show ?thesis by blast
qed

lemma slow_run:
  "vars_after default_config (mk_cwd_marker (uid (exec_with slow_events)))
       (mk_done_marker (uid (exec_with slow_events))) (Finite 20) init_vars
       [(0, Not_Ready), (1, Ready (''step 1'' @ [CHR 0x0A]))] =
     Some (init_vars\<lparr>lines := [''step 1'' @ [CHR 0x0A]], stored_lines := 1, stored_chars := 7\<rparr>)"
  by (simp add: exec_with_def loop_body_def default_config_def init_vars_def
      mk_cwd_marker_def mk_done_marker_def string_defs)

theorem C3_failures_at_the_boundary_witness:
  "fst (execute_command default_config exec_no_shell 5 (Some ''echo hi'') (Finite 20)
          no_session) = Some (Inl FileNotFoundError)
   \<and> fst (initiate_terminal default_config init_no_shell live_session) =
       Some (Inl FileNotFoundError)
   \<and> (\<exists>r m. fst (execute_command default_config (exec_with slow_events) 5 (Some ''echo hi'')
                  (Finite 20) live_session) = Some (Inr r)
          \<and> r ''ok'' = Some (PBool False) \<and> r ''error'' = Some (PStr m)
          \<and> r ''stdout'' = Some (PStr (''step 1'' @ [CHR 0x0A])))
   \<and> (\<exists>r m. fst (execute_command default_config exec_no_shell 5 (Some blank_command)
                  (Finite 20) no_session) = Some (Inr r)
          \<and> r ''ok'' = Some (PBool False) \<and> r ''error'' = Some (PStr m))"
proof -
  have n: "session no_session = None
      \<or> (\<exists>s. session no_session = Some s \<and> returncode no_session (pid (proc s)) \<noteq> None)"
    by (simp add: no_session_def)
  have f: "fst (start_shell (spawn1 exec_no_shell) no_session) = Inl FileNotFoundError"
    by (simp add: start_shell_def exec_no_shell_def no_shell_spawn_def)
  have c: "py_strip ''echo hi'' \<noteq> []"
    by (simp add: py_strip_def py_isspace_def)
  have f0: "fst (start_shell (ens1 init_no_shell) (stop_shell (stop init_no_shell) live_session))
              = Inl FileNotFoundError"
    by (simp add: start_shell_def init_no_shell_def no_shell_spawn_def)
  have ens: "ensure_shell (spawn1 (exec_with slow_events)) (spawn2 (exec_with slow_events))
               live_session = (Inr proc0, live_session)"
    by (rule ensure_live)
  have pipes: "stdin proc0" "stdout proc0" by (simp_all add: proc0_def)
  have wr: "payload_raises (exec_with slow_events) = None" by (simp add: exec_with_def)
  have evs: "events (exec_with slow_events) =
      [(0, Not_Ready), (1, Ready (''step 1'' @ [CHR 0x0A]))] @ (20.5, Not_Ready) # []"
    by (simp add: exec_with_def slow_events_def)
  have late: "elapsed_gt 20.5 (Finite 20) \<or> Not_Ready = Ready []" by simp
  have blank: "case Some blank_command of None \<Rightarrow> True | Some b \<Rightarrow> list_all py_isspace b"
    by (simp add: blank_command_def py_isspace_def)
  from C3_failures_at_the_boundary[OF n f c f0 ens pipes wr evs slow_run late blank,
      where ms = 5]
  show ?thesis by (simp add: init_vars_def)
qed

theorem C3_spawn_failure_counterexample:
  "fst (execute_command default_config exec_no_shell 5 (Some ''echo hi'') (Finite 20)
          no_session) = Some (Inl FileNotFoundError)"
  by (simp add: execute_command_def execute_def ensure_shell_def start_shell_def
      exec_no_shell_def no_shell_spawn_def no_session_def py_strip_def py_isspace_def)

subsection \<open>The shape of the results\<close>

lemma read_loop_shape:
  "read_loop cfg c d T v es = Some (Inr r) \<Longrightarrow>
   \<exists>v'. r = timeout_result T v' \<or> r = ended_result v' \<or> r = done_result v'"
proof (induction es arbitrary: v)
  case Nil
  then show ?case by simp
next
  case (Cons e es)
  show ?case
  proof (cases "loop_body cfg c d T v e")
    case (Continue v1)
    with Cons show ?thesis by simp
  next
    case (Return res)
    with Cons.prems have "loop_body cfg c d T v e = Return (Inr r)" by simp
    from loop_body_Return_shape[OF this] show ?thesis by blast
  next
    case Never
    with Cons.prems show ?thesis by simp
  qed
qed

lemma execute_shape:
  assumes "fst (execute cfg e cmd T st) = Some (Inr r)"
  shows "\<exists>v. r = timeout_result T v \<or> r = ended_result v \<or> r = done_result v"
proof (cases "ensure_shell (spawn1 e) (spawn2 e) st")
  case (Pair a st1)
  show ?thesis
  proof (cases a)
    case (Inl x)
    with Pair assms show ?thesis by (simp add: execute_def)
  next
    case (Inr p)
    with Pair assms
    have "read_loop cfg (mk_cwd_marker (uid e)) (mk_done_marker (uid e)) T init_vars (events e)
            = Some (Inr r)"
      by (auto simp: execute_def read_until_done_def Let_def split: if_splits option.splits)
    then show ?thesis by (rule read_loop_shape)
  qed
qed

lemma loop_result_fields:
  assumes "r = timeout_result T v \<or> r = ended_result v \<or> r = done_result v"
  shows "(\<exists>b. r ''ok'' = Some (PBool b) \<and> ((''error'' \<in> dom r) = (\<not> b)))
       \<and> (\<exists>s. r ''stdout'' = Some (PStr s))
       \<and> (r ''exit_code'' = Some PNone \<or> (\<exists>i. r ''exit_code'' = Some (PInt i)))
       \<and> (r ''cwd_after'' = Some PNone \<or> (\<exists>s. r ''cwd_after'' = Some (PStr s)))
       \<and> (\<exists>b. r ''truncated'' = Some (PBool b))
       \<and> r ''cmd'' = None \<and> r ''duration_ms'' = None"
proof -
  have ec: "opt_int (exit_code v) = PNone \<or> (\<exists>i. opt_int (exit_code v) = PInt i)"
    by (cases "exit_code v") simp_all
  have cw: "opt_str (cwd_after v) = PNone \<or> (\<exists>s. opt_str (cwd_after v) = PStr s)"
    by (cases "cwd_after v") simp_all
  from assms ec cw show ?thesis
    by (auto simp: timeout_result_def ended_result_def done_result_def)
qed

text \<open>
  C8. Every result of \<open>execute_command\<close> holds \<open>ok\<close>, \<open>stdout\<close>, \<open>exit_code\<close> and \<open>cwd_after\<close>,
  and holds \<open>error\<close> exactly when \<open>ok\<close> is false. For a command that is not blank it also
  holds \<open>truncated\<close>, \<open>cmd\<close> with the command and \<open>duration_ms\<close>; for a blank command it is the
  validation result, which has none of the three.
\<close>

theorem C8_result_fields:
  assumes "fst (execute_command cfg e ms cmd timeout_sec st) = Some (Inr r)"
  shows "(\<exists>b. r ''ok'' = Some (PBool b) \<and> ((''error'' \<in> dom r) = (\<not> b)))
       \<and> (\<exists>s. r ''stdout'' = Some (PStr s))
       \<and> (r ''exit_code'' = Some PNone \<or> (\<exists>i. r ''exit_code'' = Some (PInt i)))
       \<and> (r ''cwd_after'' = Some PNone \<or> (\<exists>s. r ''cwd_after'' = Some (PStr s)))
       \<and> (case cmd of
            None \<Rightarrow> r = empty_command_result
          | Some c \<Rightarrow>
              if py_strip c = [] then r = empty_command_result
              else (\<exists>b. r ''truncated'' = Some (PBool b))
                 \<and> r ''cmd'' = Some (PStr c)
                 \<and> r ''duration_ms'' = Some (PInt (int_of_float ms)))"
proof -
  have blank: "(\<exists>b. empty_command_result ''ok'' = Some (PBool b)
                  \<and> ((''error'' \<in> dom empty_command_result) = (\<not> b)))
       \<and> (\<exists>s. empty_command_result ''stdout'' = Some (PStr s))
       \<and> (empty_command_result ''exit_code'' = Some PNone
            \<or> (\<exists>i. empty_command_result ''exit_code'' = Some (PInt i)))
       \<and> (empty_command_result ''cwd_after'' = Some PNone
            \<or> (\<exists>s. empty_command_result ''cwd_after'' = Some (PStr s)))"
    by (auto simp: empty_command_result_def)
  show ?thesis
  proof (cases cmd)
    case None
    with assms have "r = empty_command_result" by (simp add: execute_command_def)
    with blank None show ?thesis by simp
  next
    case (Some c)
    show ?thesis
    proof (cases "py_strip c = []")
      case True
      with assms Some have "r = empty_command_result" by (simp add: execute_command_def)
      with blank Some True show ?thesis by simp
    next
      case False
      obtain o1 st1 where ex: "execute cfg e c timeout_sec st = (o1, st1)"
        by (cases "execute cfg e c timeout_sec st")
      with assms Some False obtain res where o1: "o1 = Some (Inr res)"
        by (cases o1; cases "the o1") (auto simp: execute_command_def)
      let ?r2 = "res(''cmd'' \<mapsto> PStr c, ''duration_ms'' \<mapsto> PInt (int_of_float ms))"
      have r: "r = (if truthy (dget ?r2 ''ok'') \<and> eq_zero (dget ?r2 ''exit_code'')
                       \<and> py_strip (or_empty (dget ?r2 ''stdout'')) = []
                    then ?r2(''stdout'' \<mapsto> PStr (''(ok)'' @ [CHR 0x0A])) else ?r2)"
        using assms Some False ex o1 by (simp add: execute_command_def Let_def)
      from ex o1 have "fst (execute cfg e c timeout_sec st) = Some (Inr res)" by simp
      from execute_shape[OF this] obtain v where
        "res = timeout_result timeout_sec v \<or> res = ended_result v \<or> res = done_result v" ..
      note f = loop_result_fields[OF this]
      have "(\<exists>b. r ''ok'' = Some (PBool b) \<and> ((''error'' \<in> dom r) = (\<not> b)))"
        using f r by (auto simp: dom_def)
      moreover have "\<exists>s. r ''stdout'' = Some (PStr s)" using f r by auto
      moreover have "r ''exit_code'' = Some PNone \<or> (\<exists>i. r ''exit_code'' = Some (PInt i))"
        using f r by auto
      moreover have "r ''cwd_after'' = Some PNone \<or> (\<exists>s. r ''cwd_after'' = Some (PStr s))"
        using f r by auto
      moreover have "\<exists>b. r ''truncated'' = Some (PBool b)" using f r by auto
      moreover have "r ''cmd'' = Some (PStr c)" using r by auto
      moreover have "r ''duration_ms'' = Some (PInt (int_of_float ms))" using r by auto
      ultimately show ?thesis using Some False by simp
    qed
  qed
qed

lemma done_run:
  "fst (execute_command default_config (exec_with done_events) 5 (Some ''echo hi'') (Finite 20)
          live_session) =
     Some (Inr [''ok'' \<mapsto> PBool True, ''stdout'' \<mapsto> PStr (''hi'' @ [CHR 0x0A]),
                ''exit_code'' \<mapsto> PInt 0, ''cwd_after'' \<mapsto> PStr ''/home/u'',
                ''truncated'' \<mapsto> PBool False, ''cmd'' \<mapsto> PStr ''echo hi'',
                ''duration_ms'' \<mapsto> PInt 5])"
  by (simp add: execute_command_def execute_def ensure_live proc0_def
      exec_with_def read_until_done_def done_events_def
      loop_body_def default_config_def init_vars_def done_result_def dget_def
      int_of_float_def mk_cwd_marker_def mk_done_marker_def string_defs Let_def)

theorem C8_result_fields_witness:
  "fst (execute_command default_config (exec_with done_events) 5 (Some ''echo hi'') (Finite 20)
          live_session) =
     Some (Inr [''ok'' \<mapsto> PBool True, ''stdout'' \<mapsto> PStr (''hi'' @ [CHR 0x0A]),
                ''exit_code'' \<mapsto> PInt 0, ''cwd_after'' \<mapsto> PStr ''/home/u'',
                ''truncated'' \<mapsto> PBool False, ''cmd'' \<mapsto> PStr ''echo hi'',
                ''duration_ms'' \<mapsto> PInt 5])
   \<and> py_strip ''echo hi'' \<noteq> []
   \<and> int_of_float 5 = 5"
proof -
  have c: "py_strip ''echo hi'' \<noteq> []" by (simp add: py_strip_def py_isspace_def)
  from C8_result_fields[OF done_run] c have "PInt 5 = PInt (int_of_float 5)"
    by simp
  with done_run c show ?thesis by simp
qed

theorem C8_validation_result_counterexample:
  "fst (execute_command default_config (exec_with done_events) 5 None (Finite 20) live_session) =
     Some (Inr empty_command_result)
   \<and> empty_command_result ''truncated'' = None
   \<and> empty_command_result ''cmd'' = None
   \<and> empty_command_result ''duration_ms'' = None"
  by (simp add: execute_command_def empty_command_result_def)

subsection \<open>Starting the session\<close>

text \<open>
  C10. Every result that \<open>initiate_terminal\<close> returns has \<open>ok\<close> true and the message
  \<open>terminal session initiated\<close>. When the \<open>pwd\<close> run ends by the timeout of 8 seconds or by
  the end of the stream, the call still returns that result; its \<open>cwd\<close> is the stripped
  output captured so far, or, when that is empty, the working directory read so far, which
  is None when no marker line was read.
\<close>

theorem C10_initiate_ok:
  assumes ens0: "ensure_shell (ens1 ie) (ens2 ie) (stop_shell (stop ie) st) = (Inr p0, st1)"
    and ens: "ensure_shell (spawn1 (run ie)) (spawn2 (run ie)) st1 = (Inr p, st2)"
    and pipes: "stdin p" "stdout p"
    and wr: "payload_raises (run ie) = None"
    and evs: "events (run ie) = pre @ (t, a) # post"
    and before: "vars_after cfg (mk_cwd_marker (uid (run ie))) (mk_done_marker (uid (run ie))) (Finite 8)
                   init_vars pre = Some v"
    and fails: "8 < t \<or> a = Ready []"
  shows "fst (initiate_terminal cfg ie st) =
           Some (Inr [''ok'' \<mapsto> PBool True,
                      ''message'' \<mapsto> PStr ''terminal session initiated'',
                      ''cwd'' \<mapsto> (if py_strip (concat (lines v)) \<noteq> []
                                  then PStr (py_strip (concat (lines v)))
                                  else opt_str (cwd_after v))])
       \<and> (\<forall>r. fst (initiate_terminal cfg' ie' st') = Some (Inr r) \<longrightarrow>
              r ''ok'' = Some (PBool True)
            \<and> r ''message'' = Some (PStr ''terminal session initiated''))"
proof
  let ?c = "mk_cwd_marker (uid (run ie))" and ?d = "mk_done_marker (uid (run ie))"
  have "loop_body cfg ?c ?d (Finite 8) v (t, a) = Return (Inr (timeout_result (Finite 8) v))
      \<or> loop_body cfg ?c ?d (Finite 8) v (t, a) = Return (Inr (ended_result v))"
    using fails by (auto simp: loop_body_def)
  then have "read_loop cfg ?c ?d (Finite 8) init_vars (events (run ie)) = Some (Inr (timeout_result (Finite 8) v))
      \<or> read_loop cfg ?c ?d (Finite 8) init_vars (events (run ie)) = Some (Inr (ended_result v))"
    unfolding evs using read_loop_append[OF before] by auto
  then obtain res where res: "fst (execute cfg (run ie) ''pwd'' (Finite 8) st1) = Some (Inr res)"
    and out: "dget res ''stdout'' = PStr (concat (lines v))"
    and cw: "dget res ''cwd_after'' = opt_str (cwd_after v)"
    using execute_reads[OF ens pipes wr, of cfg "''pwd''" "Finite 8"]
    by (auto simp: timeout_result_def ended_result_def dget_def)
  then show "fst (initiate_terminal cfg ie st) =
           Some (Inr [''ok'' \<mapsto> PBool True,
                      ''message'' \<mapsto> PStr ''terminal session initiated'',
                      ''cwd'' \<mapsto> (if py_strip (concat (lines v)) \<noteq> []
                                  then PStr (py_strip (concat (lines v)))
                                  else opt_str (cwd_after v))])"
    using ens0 by (cases "execute cfg (run ie) ''pwd'' (Finite 8) st1")
      (simp add: initiate_terminal_def Let_def)
next
  show "\<forall>r. fst (initiate_terminal cfg' ie' st') = Some (Inr r) \<longrightarrow>
              r ''ok'' = Some (PBool True)
            \<and> r ''message'' = Some (PStr ''terminal session initiated'')"
    by (auto simp: initiate_terminal_def split: prod.splits sum.splits option.splits)
qed

theorem C10_initiate_ok_witness:
  "fst (initiate_terminal default_config (init_with silent_timeout_events) live_session) =
     Some (Inr [''ok'' \<mapsto> PBool True,
                ''message'' \<mapsto> PStr ''terminal session initiated'',
                ''cwd'' \<mapsto> PNone])"
proof -
  let ?ie = "init_with silent_timeout_events"
  let ?st1 = "\<lparr>session = Some \<lparr>proc = \<lparr>pid = 1, stdin = True, stdout = True\<rparr>\<rparr>,
       returncode = (\<lambda>_. None),
       spawned = 2,
       trace = [Terminate 0 None, Wait 0 (Inl TimeoutExpired), Kill 0 (Some OSError), Spawn 1,
                Write 1 (''export PS1='' @ [CHR 0x27, CHR 0x27, CHR 0x0A])]\<rparr>"
  let ?p = "\<lparr>pid = 1, stdin = True, stdout = True\<rparr>"
  have ens0: "ensure_shell (ens1 ?ie) (ens2 ?ie) (stop_shell (stop ?ie) live_session) = (Inr ?p, ?st1)"
    by (simp add: init_with_def ensure_shell_def respawn_if_exited_def start_shell_def
        stop_shell_def failing_stop_def live_session_def proc0_def ok_spawn_def Let_def
        fun_upd_idem)
  have ens: "ensure_shell (spawn1 (run ?ie)) (spawn2 (run ?ie)) ?st1 = (Inr ?p, ?st1)"
    by (simp add: ensure_shell_def respawn_if_exited_def)
  have evs: "events (run ?ie) = [(0, Not_Ready)] @ (8.1, Not_Ready) # []"
    by (simp add: init_with_def exec_with_def silent_timeout_events_def)
  have before: "vars_after default_config (mk_cwd_marker (uid (run ?ie)))
       (mk_done_marker (uid (run ?ie))) (Finite 8) init_vars [(0, Not_Ready)] = Some init_vars"
    by (simp add: loop_body_def)
  have wr: "payload_raises (run ?ie) = None" by (simp add: init_with_def exec_with_def)
  from C10_initiate_ok[OF ens0 ens _ _ wr evs before]
  show ?thesis by (simp add: init_vars_def py_strip_def)
qed

end
